theory Spec2Isabelle
  imports Main "HOL-Library.Word"
begin

section \<open>Normalisation of GitHub pull-request data (src/github/utils.ts)\<close>

text \<open>
  A shallow embedding of the normalisation functions of \<^verbatim>\<open>src/github/utils.ts\<close>:
  the event-type classifier, the author and comment normalisers, the timeline
  normaliser, the reviewer-state reconciler, the commit-regrouping pass and the
  mergeability parser. JavaScript objects are records, tagged unions are datatypes,
  \<^verbatim>\<open>null\<close> and \<^verbatim>\<open>undefined\<close> are \<open>None\<close>, a raised \<^verbatim>\<open>TypeError\<close> is the
  left summand of a sum type, and an array mutated in place is passed in and returned.
\<close>

subsection \<open>Errors\<close>

datatype error = TypeError

subsection \<open>Accounts, teams and reviewers\<close>

text \<open>
  \<^verbatim>\<open>IAccount\<close> and \<^verbatim>\<open>ITeam\<close> are declared in \<^verbatim>\<open>./interface\<close>. The fields are those
  this file reads and writes: \<^verbatim>\<open>{login, url, avatarUrl?, email?, name?}\<close> for an
  account and \<^verbatim>\<open>{name, ...}\<close> for a team.
\<close>

record IAccount =
  login :: string
  url :: string
  avatarUrl :: "string option"
  email :: "string option"
  name :: "string option"

record ITeam =
  t_name :: string
  t_avatarUrl :: "string option"

datatype Reviewer = Account IAccount | Team ITeam

text \<open>
  \<^verbatim>\<open>
  function parseAuthor(author: IAccount | null): IAccount {
      if (author) {
          return { login: author.login, url: author.url,
                   avatarUrl: author.avatarUrl, email: author.email };
      } else {
          return { login: '', url: '' };
      }
  }
  \<close>
\<close>

definition parseAuthor :: "IAccount option \<Rightarrow> IAccount" where
  "parseAuthor author =
     (case author of
        Some a \<Rightarrow> \<lparr>login = login a, url = url a, avatarUrl = avatarUrl a,
                   email = email a, name = None\<rparr>
      | None \<Rightarrow> \<lparr>login = '''', url = '''', avatarUrl = None, email = None, name = None\<rparr>)"

subsection \<open>Reactions\<close>

text \<open>
  The \<^verbatim>\<open>content\<close> of a reaction group ranges over the \<^verbatim>\<open>ReactionContent\<close>
  enumeration of the GraphQL schema; \<^verbatim>\<open>getReactionGroup\<close> has one row per value.
  The icon of a row is the resource \<^verbatim>\<open>Resource.icons.reactions.<title>\<close>, kept
  here as a constructor applied to the title. The labels are the emoji of the source,
  as their UTF-8 bytes.
\<close>

datatype ReactionContent =
  THUMBS_UP | THUMBS_DOWN | LAUGH | HOORAY | CONFUSED | HEART | ROCKET | EYES

datatype Uri = ReactionIcon ReactionContent

record ReactionGroup =
  rg_content :: ReactionContent
  rg_totalCount :: int
  rg_viewerHasReacted :: bool

record ReactionRow =
  title :: ReactionContent
  row_label :: string
  row_icon :: "Uri option"

record Reaction =
  r_label :: string
  r_count :: int
  r_icon :: "Uri option"
  r_viewerHasReacted :: bool

definition getReactionGroup :: "ReactionRow list" where
  "getReactionGroup =
     [\<lparr>title = THUMBS_UP, row_label = [CHR 0xF0, CHR 0x9F, CHR 0x91, CHR 0x8D],
       row_icon = Some (ReactionIcon THUMBS_UP)\<rparr>,
      \<lparr>title = THUMBS_DOWN, row_label = [CHR 0xF0, CHR 0x9F, CHR 0x91, CHR 0x8E],
       row_icon = Some (ReactionIcon THUMBS_DOWN)\<rparr>,
      \<lparr>title = LAUGH, row_label = [CHR 0xF0, CHR 0x9F, CHR 0x98, CHR 0x84],
       row_icon = Some (ReactionIcon LAUGH)\<rparr>,
      \<lparr>title = HOORAY, row_label = [CHR 0xF0, CHR 0x9F, CHR 0x8E, CHR 0x89],
       row_icon = Some (ReactionIcon HOORAY)\<rparr>,
      \<lparr>title = CONFUSED, row_label = [CHR 0xF0, CHR 0x9F, CHR 0x98, CHR 0x95],
       row_icon = Some (ReactionIcon CONFUSED)\<rparr>,
      \<lparr>title = HEART, row_label = [CHR 0xE2, CHR 0x9D, CHR 0xA4, CHR 0xEF, CHR 0xB8, CHR 0x8F],
       row_icon = Some (ReactionIcon HEART)\<rparr>,
      \<lparr>title = ROCKET, row_label = [CHR 0xF0, CHR 0x9F, CHR 0x9A, CHR 0x80],
       row_icon = Some (ReactionIcon ROCKET)\<rparr>,
      \<lparr>title = EYES, row_label = [CHR 0xF0, CHR 0x9F, CHR 0x91, CHR 0x80],
       row_icon = Some (ReactionIcon EYES)\<rparr>]"

text \<open>
  \<^verbatim>\<open>Array.prototype.map\<close> with a callback that may raise: the first error ends the
  traversal.
\<close>

fun mapM :: "('a \<Rightarrow> error + 'b) \<Rightarrow> 'a list \<Rightarrow> error + 'b list" where
  "mapM f [] = Inr []"
| "mapM f (x # xs) =
     (case f x of
        Inl e \<Rightarrow> Inl e
      | Inr y \<Rightarrow> (case mapM f xs of Inl e \<Rightarrow> Inl e | Inr ys \<Rightarrow> Inr (y # ys)))"

text \<open>
  \<^verbatim>\<open>
  export function parseGraphQLReaction(reactionGroups: GraphQL.ReactionGroup[]): Reaction[] {
      const reactionContentEmojiMapping = getReactionGroup().reduce((prev, curr) => {
          prev[curr.title] = curr;
          return prev;
      }, {});
      const reactions = reactionGroups
          .filter(group => group.users.totalCount > 0)
          .map(group => {
              const reaction: Reaction = {
                  label: reactionContentEmojiMapping[group.content].label,
                  count: group.users.totalCount,
                  icon: reactionContentEmojiMapping[group.content].icon,
                  viewerHasReacted: group.viewerHasReacted,
              };
              return reaction;
          });
      return reactions;
  }
  \<close>
  Reading \<^verbatim>\<open>.label\<close> of a missing row raises a TypeError.
\<close>

definition reactionContentEmojiMapping :: "ReactionContent \<rightharpoonup> ReactionRow" where
  "reactionContentEmojiMapping =
     foldl (\<lambda>prev curr. prev(title curr \<mapsto> curr)) Map.empty getReactionGroup"

definition parseGraphQLReaction :: "ReactionGroup list \<Rightarrow> error + Reaction list" where
  "parseGraphQLReaction reactionGroups =
     mapM (\<lambda>group.
             case reactionContentEmojiMapping (rg_content group) of
               None \<Rightarrow> Inl TypeError
             | Some row \<Rightarrow>
                 Inr \<lparr>r_label = row_label row, r_count = rg_totalCount group,
                      r_icon = row_icon row,
                      r_viewerHasReacted = rg_viewerHasReacted group\<rparr>)
          (filter (\<lambda>group. rg_totalCount group > 0) reactionGroups)"

subsection \<open>Review comments\<close>

text \<open>
  The hunk descriptors and \<^verbatim>\<open>parseDiffHunk\<close> are declared in
  \<^verbatim>\<open>../common/diffHunk\<close>; the parser is a parameter \<open>parseDiffHunk\<close> giving the finite
  sequence of hunks that its generator yields.
\<close>

typedecl DiffHunk

record NodeRef =
  databaseId :: int

record CommitRef =
  oid :: string

text \<open>The fields of \<^verbatim>\<open>GraphQL.ReviewComment\<close> that \<^verbatim>\<open>parseGraphQLComment\<close> reads.\<close>

record ReviewComment =
  rc_databaseId :: int
  rc_url :: string
  rc_body :: string
  rc_bodyHTML :: string
  rc_path :: string
  rc_viewerCanDelete :: bool
  rc_pullRequestReview :: "NodeRef option"
  rc_diffHunk :: string
  rc_position :: "int option"
  rc_commit :: CommitRef
  rc_originalPosition :: "int option"
  rc_originalCommit :: "CommitRef option"
  rc_author :: "IAccount option"
  rc_createdAt :: string
  rc_id :: string
  rc_state :: string
  rc_replyTo :: "NodeRef option"
  rc_reactionGroups :: "ReactionGroup list"

record IComment =
  c_id :: int
  c_url :: string
  c_body :: string
  c_bodyHTML :: string
  c_path :: string
  c_canEdit :: bool
  c_canDelete :: bool
  c_pullRequestReviewId :: "int option"
  c_diffHunk :: string
  c_position :: "int option"
  c_commitId :: string
  c_originalPosition :: "int option"
  c_originalCommitId :: "string option"
  c_user :: "IAccount option"
  c_createdAt :: string
  c_htmlUrl :: string
  c_graphNodeId :: string
  c_isDraft :: bool
  c_inReplyToId :: "int option"
  c_reactions :: "Reaction list"
  c_isResolved :: bool
  c_diffHunks :: "DiffHunk list option"

text \<open>
  \<^verbatim>\<open>
  export function parseCommentDiffHunk(comment: IComment): DiffHunk[] {
      const diffHunks: DiffHunk[] = [];
      const diffHunkReader = parseDiffHunk(comment.diffHunk);
      let diffHunkIter = diffHunkReader.next();
      while (!diffHunkIter.done) {
          const diffHunk = diffHunkIter.value;
          diffHunks.push(diffHunk);
          diffHunkIter = diffHunkReader.next();
      }
      return diffHunks;
  }
  \<close>
\<close>

fun drain :: "'a list \<Rightarrow> 'a list \<Rightarrow> 'a list" where
  "drain [] diffHunks = diffHunks"
| "drain (diffHunk # reader) diffHunks = drain reader (diffHunks @ [diffHunk])"

definition parseCommentDiffHunk :: "(string \<Rightarrow> DiffHunk list) \<Rightarrow> IComment \<Rightarrow> DiffHunk list" where
  "parseCommentDiffHunk parseDiffHunk comment = drain (parseDiffHunk (c_diffHunk comment)) []"

text \<open>
  \<^verbatim>\<open>
  export function parseGraphQLComment(comment: GraphQL.ReviewComment, isResolved: boolean): IComment {
      const c: IComment = {
          id: comment.databaseId,
          url: comment.url,
          body: comment.body,
          bodyHTML: comment.bodyHTML,
          path: comment.path,
          canEdit: comment.viewerCanDelete,
          canDelete: comment.viewerCanDelete,
          pullRequestReviewId: comment.pullRequestReview && comment.pullRequestReview.databaseId,
          diffHunk: comment.diffHunk,
          position: comment.position,
          commitId: comment.commit.oid,
          originalPosition: comment.originalPosition,
          originalCommitId: comment.originalCommit && comment.originalCommit.oid,
          user: comment.author ? parseAuthor(comment.author) : undefined,
          createdAt: comment.createdAt,
          htmlUrl: comment.url,
          graphNodeId: comment.id,
          isDraft: comment.state === 'PENDING',
          inReplyToId: comment.replyTo && comment.replyTo.databaseId,
          reactions: parseGraphQLReaction(comment.reactionGroups),
          isResolved,
      };
      const diffHunks = parseCommentDiffHunk(c);
      c.diffHunks = diffHunks;
      return c;
  }
  \<close>
  \<^verbatim>\<open>x && x.f\<close> on an object or null \<^verbatim>\<open>x\<close> is \<open>map_option f x\<close>.
\<close>

definition parseGraphQLComment ::
  "(string \<Rightarrow> DiffHunk list) \<Rightarrow> ReviewComment \<Rightarrow> bool \<Rightarrow> error + IComment" where
  "parseGraphQLComment parseDiffHunk comment isResolved =
     (case parseGraphQLReaction (rc_reactionGroups comment) of
        Inl e \<Rightarrow> Inl e
      | Inr reactions \<Rightarrow>
          (let c = \<lparr>c_id = rc_databaseId comment,
                    c_url = rc_url comment,
                    c_body = rc_body comment,
                    c_bodyHTML = rc_bodyHTML comment,
                    c_path = rc_path comment,
                    c_canEdit = rc_viewerCanDelete comment,
                    c_canDelete = rc_viewerCanDelete comment,
                    c_pullRequestReviewId = map_option databaseId (rc_pullRequestReview comment),
                    c_diffHunk = rc_diffHunk comment,
                    c_position = rc_position comment,
                    c_commitId = oid (rc_commit comment),
                    c_originalPosition = rc_originalPosition comment,
                    c_originalCommitId = map_option oid (rc_originalCommit comment),
                    c_user = (case rc_author comment of
                                Some a \<Rightarrow> Some (parseAuthor (Some a))
                              | None \<Rightarrow> None),
                    c_createdAt = rc_createdAt comment,
                    c_htmlUrl = rc_url comment,
                    c_graphNodeId = rc_id comment,
                    c_isDraft = (rc_state comment = ''PENDING''),
                    c_inReplyToId = map_option databaseId (rc_replyTo comment),
                    c_reactions = reactions,
                    c_isResolved = isResolved,
                    c_diffHunks = None\<rparr>
           in Inr (c\<lparr>c_diffHunks := Some (parseCommentDiffHunk parseDiffHunk c)\<rparr>)))"

subsection \<open>Event kinds and the event-type classifier\<close>

text \<open>
  The members of \<^verbatim>\<open>Common.EventType\<close> that this file names.
\<close>

datatype EventType =
  Committed | Labeled | Milestoned | Assigned | HeadRefDeleted | Commented
  | Reviewed | Merged | Other | NewCommitsSinceReview

text \<open>
  \<^verbatim>\<open>
  export function convertGraphQLEventType(text: string) {
      switch (text) {
          case 'PullRequestCommit':   return Common.EventType.Committed;
          case 'LabeledEvent':        return Common.EventType.Labeled;
          case 'MilestonedEvent':     return Common.EventType.Milestoned;
          case 'AssignedEvent':       return Common.EventType.Assigned;
          case 'HeadRefDeletedEvent': return Common.EventType.HeadRefDeleted;
          case 'IssueComment':        return Common.EventType.Commented;
          case 'PullRequestReview':   return Common.EventType.Reviewed;
          case 'MergedEvent':         return Common.EventType.Merged;
          default:                    return Common.EventType.Other;
      }
  }
  \<close>
\<close>

definition convertGraphQLEventType :: "string \<Rightarrow> EventType" where
  "convertGraphQLEventType text =
     (if text = ''PullRequestCommit'' then Committed
      else if text = ''LabeledEvent'' then Labeled
      else if text = ''MilestonedEvent'' then Milestoned
      else if text = ''AssignedEvent'' then Assigned
      else if text = ''HeadRefDeletedEvent'' then HeadRefDeleted
      else if text = ''IssueComment'' then Commented
      else if text = ''PullRequestReview'' then Reviewed
      else if text = ''MergedEvent'' then Merged
      else Other)"

subsection \<open>Canonical timeline events\<close>

text \<open>
  The variants of \<^verbatim>\<open>Common.TimelineEvent\<close> that this file constructs, one record per
  variant with the fields of the object literal that builds it. The \<^verbatim>\<open>event\<close> field
  of an event is the kind of its constructor.
\<close>

datatype Date = Date string

record CommentEvent =
  cm_htmlUrl :: string
  cm_body :: string
  cm_bodyHTML :: string
  cm_user :: IAccount
  cm_canEdit :: bool
  cm_canDelete :: bool
  cm_id :: int
  cm_graphNodeId :: string
  cm_createdAt :: string

record ReviewEvent =
  rv_comments :: "IComment list"
  rv_submittedAt :: string
  rv_body :: string
  rv_bodyHTML :: string
  rv_htmlUrl :: string
  rv_user :: IAccount
  rv_authorAssociation :: string
  rv_state :: string
  rv_id :: int

record CommitEvent =
  ci_id :: string
  ci_sha :: string
  ci_author :: IAccount
  ci_htmlUrl :: string
  ci_message :: string
  ci_authoredDate :: Date

record MergedEvent =
  mg_id :: string
  mg_user :: IAccount
  mg_createdAt :: string
  mg_mergeRef :: string
  mg_sha :: string
  mg_commitUrl :: string
  mg_url :: string
  mg_graphNodeId :: string

record AssignEvent =
  as_id :: string
  as_user :: IAccount
  as_actor :: IAccount

record HeadRefDeleteEvent =
  hd_id :: string
  hd_actor :: IAccount
  hd_createdAt :: string
  hd_headRef :: string

record NewCommitsSinceReviewEvent =
  nc_id :: string

datatype TimelineEvent =
  CommentEv CommentEvent
  | ReviewEv ReviewEvent
  | CommitEv CommitEvent
  | MergedEv MergedEvent
  | AssignEv AssignEvent
  | HeadRefDeleteEv HeadRefDeleteEvent
  | NewCommitsSinceReviewEv NewCommitsSinceReviewEvent

fun event :: "TimelineEvent \<Rightarrow> EventType" where
  "event (CommentEv _) = Commented"
| "event (ReviewEv _) = Reviewed"
| "event (CommitEv _) = Committed"
| "event (MergedEv _) = Merged"
| "event (AssignEv _) = Assigned"
| "event (HeadRefDeleteEv _) = HeadRefDeleted"
| "event (NewCommitsSinceReviewEv _) = NewCommitsSinceReview"

subsection \<open>Submitted reviews\<close>

text \<open>The fields of \<^verbatim>\<open>GraphQL.SubmittedReview\<close> that \<^verbatim>\<open>parseGraphQLReviewEvent\<close> reads.\<close>

record CommentNodes =
  nodes :: "ReviewComment list"

record SubmittedReview =
  sr_comments :: CommentNodes
  sr_submittedAt :: string
  sr_body :: string
  sr_bodyHTML :: string
  sr_url :: string
  sr_author :: "IAccount option"
  sr_authorAssociation :: string
  sr_state :: string
  sr_databaseId :: int

text \<open>
  JavaScript truthiness of a \<^verbatim>\<open>number | null | undefined\<close>: \<^verbatim>\<open>!x\<close> holds for
  \<^verbatim>\<open>null\<close>, \<^verbatim>\<open>undefined\<close> and \<^verbatim>\<open>0\<close>.
\<close>

definition falsy :: "int option \<Rightarrow> bool" where
  "falsy x = (case x of None \<Rightarrow> True | Some n \<Rightarrow> n = 0)"

text \<open>
  \<^verbatim>\<open>
  export function parseGraphQLReviewEvent(review: GraphQL.SubmittedReview): Common.ReviewEvent {
      return {
          event: Common.EventType.Reviewed,
          comments: review.comments.nodes.map(comment => parseGraphQLComment(comment, false))
                                         .filter(c => !c.inReplyToId),
          submittedAt: review.submittedAt,
          body: review.body,
          bodyHTML: review.bodyHTML,
          htmlUrl: review.url,
          user: parseAuthor(review.author),
          authorAssociation: review.authorAssociation,
          state: review.state,
          id: review.databaseId,
      };
  }
  \<close>
\<close>

definition parseGraphQLReviewEvent ::
  "(string \<Rightarrow> DiffHunk list) \<Rightarrow> SubmittedReview \<Rightarrow> error + ReviewEvent" where
  "parseGraphQLReviewEvent parseDiffHunk review =
     (case mapM (\<lambda>comment. parseGraphQLComment parseDiffHunk comment False)
                (nodes (sr_comments review)) of
        Inl e \<Rightarrow> Inl e
      | Inr cs \<Rightarrow>
          Inr \<lparr>rv_comments = filter (\<lambda>c. falsy (c_inReplyToId c)) cs,
               rv_submittedAt = sr_submittedAt review,
               rv_body = sr_body review,
               rv_bodyHTML = sr_bodyHTML review,
               rv_htmlUrl = sr_url review,
               rv_user = parseAuthor (sr_author review),
               rv_authorAssociation = sr_authorAssociation review,
               rv_state = sr_state review,
               rv_id = sr_databaseId review\<rparr>)"

subsection \<open>The timeline normaliser\<close>

text \<open>
  A raw graph event. The casts of the source (\<^verbatim>\<open>event as GraphQL.IssueComment\<close>, ...)
  are unchecked, so every branch reads the one object it was given: the record has each
  field that some branch reads, and the branch chosen by \<^verbatim>\<open>__typename\<close> reads those of
  the GraphQL type it casts to.
\<close>

record RawCommitAuthor =
  ca_user :: "IAccount option"
  ca_name :: string
  ca_avatarUrl :: string
  ca_email :: string

record RawCommit =
  rcm_oid :: string
  rcm_author :: RawCommitAuthor
  rcm_message :: string
  rcm_authoredDate :: string
  rcm_commitUrl :: string

record RawRef =
  ref_name :: string

record RawEvent =
  ev_typename :: string
  ev_id :: string
  ev_databaseId :: int
  ev_url :: string
  ev_body :: string
  ev_bodyHTML :: string
  ev_author :: "IAccount option"
  ev_actor :: "IAccount option"
  ev_user :: "IAccount option"
  ev_viewerCanUpdate :: bool
  ev_viewerCanDelete :: bool
  ev_createdAt :: string
  ev_submittedAt :: string
  ev_authorAssociation :: string
  ev_state :: string
  ev_commit :: RawCommit
  ev_mergeRef :: RawRef
  ev_headRefName :: string

text \<open>
  The body of the loop of \<^verbatim>\<open>parseGraphQLTimelineEvents\<close>: classify the event, then
  \<^verbatim>\<open>
  switch (type) {
      case Common.EventType.Commented:      normalizedEvents.push({ ... }); break;
      case Common.EventType.Reviewed:       normalizedEvents.push({ ... }); break;
      case Common.EventType.Committed:      normalizedEvents.push({ ... }); break;
      case Common.EventType.Merged:         normalizedEvents.push({ ... }); break;
      case Common.EventType.Assigned:       normalizedEvents.push({ ... }); break;
      case Common.EventType.HeadRefDeleted: normalizedEvents.push({ ... }); break;
  }
  \<close>
  The switch has no \<^verbatim>\<open>default\<close> and no case for \<^verbatim>\<open>Labeled\<close>, \<^verbatim>\<open>Milestoned\<close> or
  \<^verbatim>\<open>Other\<close>: for these kinds the body leaves \<^verbatim>\<open>normalizedEvents\<close> as it is.
\<close>

definition loopBody :: "TimelineEvent list \<Rightarrow> RawEvent \<Rightarrow> TimelineEvent list" where
  "loopBody normalizedEvents ev =
     (case convertGraphQLEventType (ev_typename ev) of
        Commented \<Rightarrow>
          normalizedEvents @
            [CommentEv \<lparr>cm_htmlUrl = ev_url ev,
                        cm_body = ev_body ev,
                        cm_bodyHTML = ev_bodyHTML ev,
                        cm_user = parseAuthor (ev_author ev),
                        cm_canEdit = ev_viewerCanUpdate ev,
                        cm_canDelete = ev_viewerCanDelete ev,
                        cm_id = ev_databaseId ev,
                        cm_graphNodeId = ev_id ev,
                        cm_createdAt = ev_createdAt ev\<rparr>]
      | Reviewed \<Rightarrow>
          normalizedEvents @
            [ReviewEv \<lparr>rv_comments = [],
                       rv_submittedAt = ev_submittedAt ev,
                       rv_body = ev_body ev,
                       rv_bodyHTML = ev_bodyHTML ev,
                       rv_htmlUrl = ev_url ev,
                       rv_user = parseAuthor (ev_author ev),
                       rv_authorAssociation = ev_authorAssociation ev,
                       rv_state = ev_state ev,
                       rv_id = ev_databaseId ev\<rparr>]
      | Committed \<Rightarrow>
          normalizedEvents @
            [CommitEv \<lparr>ci_id = ev_id ev,
                       ci_sha = rcm_oid (ev_commit ev),
                       ci_author =
                         (case ca_user (rcm_author (ev_commit ev)) of
                            Some u \<Rightarrow> parseAuthor (Some u)
                          | None \<Rightarrow>
                              parseAuthor
                                (Some \<lparr>login = ca_name (rcm_author (ev_commit ev)),
                                       url = '''',
                                       avatarUrl = Some (ca_avatarUrl (rcm_author (ev_commit ev))),
                                       email = Some (ca_email (rcm_author (ev_commit ev))),
                                       name = None\<rparr>)),
                       ci_htmlUrl = ev_url ev,
                       ci_message = rcm_message (ev_commit ev),
                       ci_authoredDate = Date (rcm_authoredDate (ev_commit ev))\<rparr>]
      | Merged \<Rightarrow>
          normalizedEvents @
            [MergedEv \<lparr>mg_id = ev_id ev,
                       mg_user = parseAuthor (ev_actor ev),
                       mg_createdAt = ev_createdAt ev,
                       mg_mergeRef = ref_name (ev_mergeRef ev),
                       mg_sha = rcm_oid (ev_commit ev),
                       mg_commitUrl = rcm_commitUrl (ev_commit ev),
                       mg_url = ev_url ev,
                       mg_graphNodeId = ev_id ev\<rparr>]
      | Assigned \<Rightarrow>
          normalizedEvents @
            [AssignEv \<lparr>as_id = ev_id ev,
                       as_user = parseAuthor (ev_user ev),
                       as_actor = parseAuthor (ev_actor ev)\<rparr>]
      | HeadRefDeleted \<Rightarrow>
          normalizedEvents @
            [HeadRefDeleteEv \<lparr>hd_id = ev_id ev,
                              hd_actor = parseAuthor (ev_actor ev),
                              hd_createdAt = ev_createdAt ev,
                              hd_headRef = ev_headRefName ev\<rparr>]
      | _ \<Rightarrow> normalizedEvents)"

text \<open>
  \<^verbatim>\<open>
  const normalizedEvents: Common.TimelineEvent[] = [];
  for (const event of events) { ... }
  return normalizedEvents;
  \<close>
\<close>

definition parseGraphQLTimelineEvents :: "RawEvent list \<Rightarrow> TimelineEvent list" where
  "parseGraphQLTimelineEvents events = foldl loopBody [] events"

subsection \<open>The reviewer-state reconciler\<close>

record ReviewState =
  rs_reviewer :: Reviewer
  rs_state :: string

text \<open>
  Modelled from the spec: \<^verbatim>\<open>reviewerId\<close> is imported from \<^verbatim>\<open>./interface\<close>, which is
  not part of the sources at hand. The specification keys a reviewer by its identity,
  "login for accounts, name for teams".
\<close>

fun reviewerId :: "Reviewer \<Rightarrow> string" where
  "reviewerId (Account a) = login a"
| "reviewerId (Team t) = t_name t"

text \<open>The identities of the entries of a reviewer list, in order.\<close>

primrec reviewerIds :: "ReviewState list \<Rightarrow> string list" where
  "reviewerIds [] = []"
| "reviewerIds (r # rs) = reviewerId (rs_reviewer r) # reviewerIds rs"

text \<open>
  \<^verbatim>\<open>reviewerLabel\<close> is imported from \<^verbatim>\<open>./interface\<close> as well; the specification
  only says that a reviewer has a display label, so the function is a parameter
  \<open>reviewerLabel\<close> of the reconciler.

  The comparator orders labels, so a label is kept as what JavaScript compares: the
  sequence of the UTF-16 code units of the string. \<^verbatim>\<open><\<close> on two strings is the
  lexicographic order of their code units, read as unsigned 16-bit numbers.
\<close>

type_synonym jsString = "16 word list"

fun string_less :: "jsString \<Rightarrow> jsString \<Rightarrow> bool" where
  "string_less [] [] = False"
| "string_less [] (y # ys) = True"
| "string_less (x # xs) [] = False"
| "string_less (x # xs) (y # ys) =
     (if x < y then True
      else if y < x then False
      else string_less xs ys)"

text \<open>
  \<^verbatim>\<open>String.prototype.toLowerCase\<close> applies the case mappings of the Unicode character
  database, which are no part of this development: the function is a parameter
  \<open>toLowerCase\<close> of the comparator and of the reconciler, and nothing is assumed of it.

  The comparator of the final sort:
  \<^verbatim>\<open>
  (a, b) => {
      if (a.state === 'REQUESTED' && b.state !== 'REQUESTED') { return 1; }
      if (b.state === 'REQUESTED' && a.state !== 'REQUESTED') { return -1; }
      return reviewerLabel(a.reviewer).toLowerCase() < reviewerLabel(b.reviewer).toLowerCase() ? -1 : 1;
  }
  \<close>
\<close>

definition compareReviewers ::
  "(jsString \<Rightarrow> jsString) \<Rightarrow> (Reviewer \<Rightarrow> jsString) \<Rightarrow> ReviewState \<Rightarrow> ReviewState \<Rightarrow> int" where
  "compareReviewers toLowerCase reviewerLabel a b =
     (if rs_state a = ''REQUESTED'' \<and> rs_state b \<noteq> ''REQUESTED'' then 1
      else if rs_state b = ''REQUESTED'' \<and> rs_state a \<noteq> ''REQUESTED'' then - 1
      else if string_less (toLowerCase (reviewerLabel (rs_reviewer a)))
                          (toLowerCase (reviewerLabel (rs_reviewer b)))
           then - 1 else 1)"

text \<open>
  \<^verbatim>\<open>Array.prototype.sort\<close> with a comparator, as a stable insertion sort: each element
  in turn is placed before the first element of the sorted prefix that it compares
  below. ECMAScript fixes the result of the sort for a consistent comparator only; the
  comparator above never returns \<open>0\<close>, and is consistent on entries whose lowercased
  labels differ pairwise. The theorems below that depend on the order of the result are
  stated for such entries.
\<close>

fun insertSorted :: "('a \<Rightarrow> 'a \<Rightarrow> int) \<Rightarrow> 'a \<Rightarrow> 'a list \<Rightarrow> 'a list" where
  "insertSorted cmp x [] = [x]"
| "insertSorted cmp x (y # ys) =
     (if cmp x y < 0 then x # y # ys else y # insertSorted cmp x ys)"

definition sortBy :: "('a \<Rightarrow> 'a \<Rightarrow> int) \<Rightarrow> 'a list \<Rightarrow> 'a list" where
  "sortBy cmp xs = foldl (\<lambda>sorted x. insertSorted cmp x sorted) [] xs"

text \<open>
  \<^verbatim>\<open>
  const reviewEvents = timelineEvents
      .filter((e): e is Common.ReviewEvent => e.event === Common.EventType.Reviewed)
      .filter(event => event.state !== 'PENDING');
  \<close>
\<close>

fun reviewEventsOf :: "TimelineEvent list \<Rightarrow> ReviewEvent list" where
  "reviewEventsOf [] = []"
| "reviewEventsOf (ReviewEv r # es) =
     (if rv_state r \<noteq> ''PENDING'' then r # reviewEventsOf es else reviewEventsOf es)"
| "reviewEventsOf (_ # es) = reviewEventsOf es"

text \<open>
  The state of the two loops: the map \<^verbatim>\<open>seen\<close> and the array \<^verbatim>\<open>reviewers\<close>.
  \<^verbatim>\<open>!seen.get(k)\<close> holds unless the map has \<^verbatim>\<open>true\<close> at \<^verbatim>\<open>k\<close>.
  \<^verbatim>\<open>
  for (let i = reviewEvents.length - 1; i >= 0; i--) {
      const reviewer = reviewEvents[i].user;
      if (!seen.get(reviewer.login)) {
          seen.set(reviewer.login, true);
          reviewers.push({ reviewer: reviewer, state: reviewEvents[i].state });
      }
  }
  \<close>
  The counter of \<open>reviewLoop\<close> is \<open>i + 1\<close>, so that the loop ends at \<open>0\<close>.
\<close>

fun reviewLoop ::
  "ReviewEvent list \<Rightarrow> nat \<Rightarrow> (string \<rightharpoonup> bool) \<times> ReviewState list
     \<Rightarrow> (string \<rightharpoonup> bool) \<times> ReviewState list" where
  "reviewLoop reviewEvents 0 (seen, reviewers) = (seen, reviewers)"
| "reviewLoop reviewEvents (Suc i) (seen, reviewers) =
     (let reviewer = rv_user (reviewEvents ! i)
      in if seen (login reviewer) \<noteq> Some True
         then reviewLoop reviewEvents i
                (seen(login reviewer \<mapsto> True),
                 reviewers @ [\<lparr>rs_reviewer = Account reviewer,
                                rs_state = rv_state (reviewEvents ! i)\<rparr>])
         else reviewLoop reviewEvents i (seen, reviewers))"

text \<open>
  \<^verbatim>\<open>
  requestedReviewers.forEach(request => {
      if (!seen.get(reviewerId(request))) {
          reviewers.push({ reviewer: request, state: 'REQUESTED' });
      } else {
          const reviewer = reviewers.find(r => reviewerId(r.reviewer) === reviewerId(request));
          reviewer!.state = 'REQUESTED';
      }
  });
  \<close>
  \<^verbatim>\<open>find\<close> returns the first entry that matches, or \<^verbatim>\<open>undefined\<close>; the assignment to
  \<^verbatim>\<open>reviewer!.state\<close> changes that entry in place, and raises a TypeError when
  \<^verbatim>\<open>reviewer\<close> is \<^verbatim>\<open>undefined\<close>.
\<close>

fun setFirst :: "('a \<Rightarrow> bool) \<Rightarrow> ('a \<Rightarrow> 'a) \<Rightarrow> 'a list \<Rightarrow> 'a list" where
  "setFirst p f [] = []"
| "setFirst p f (x # xs) = (if p x then f x # xs else x # setFirst p f xs)"

fun requestLoop ::
  "(string \<rightharpoonup> bool) \<Rightarrow> Reviewer list \<Rightarrow> ReviewState list \<Rightarrow> error + ReviewState list" where
  "requestLoop seen [] reviewers = Inr reviewers"
| "requestLoop seen (request # rest) reviewers =
     (if seen (reviewerId request) \<noteq> Some True
      then requestLoop seen rest
             (reviewers @ [\<lparr>rs_reviewer = request, rs_state = ''REQUESTED''\<rparr>])
      else (case find (\<lambda>r. reviewerId (rs_reviewer r) = reviewerId request) reviewers of
              None \<Rightarrow> Inl TypeError
            | Some reviewer \<Rightarrow>
                requestLoop seen rest
                  (setFirst (\<lambda>r. reviewerId (rs_reviewer r) = reviewerId request)
                            (\<lambda>r. r\<lparr>rs_state := ''REQUESTED''\<rparr>) reviewers)))"

text \<open>
  \<^verbatim>\<open>
  export function parseReviewers(requestedReviewers, timelineEvents, author): ReviewState[] {
      const reviewEvents = ...;
      let reviewers: ReviewState[] = [];
      const seen = new Map<string, boolean>();
      // Do not show the author in the reviewer list
      seen.set(author.login, true);
      for (...) { ... }
      requestedReviewers.forEach(...);
      // Put completed reviews before review requests and alphabetize each section
      reviewers = reviewers.sort(...);
      return reviewers;
  }
  \<close>
\<close>

definition parseReviewers ::
  "(jsString \<Rightarrow> jsString) \<Rightarrow> (Reviewer \<Rightarrow> jsString) \<Rightarrow> Reviewer list \<Rightarrow> TimelineEvent list
     \<Rightarrow> IAccount \<Rightarrow> error + ReviewState list" where
  "parseReviewers toLowerCase reviewerLabel requestedReviewers timelineEvents author =
     (let reviewEvents = reviewEventsOf timelineEvents;
          (seen, reviewers) =
             reviewLoop reviewEvents (length reviewEvents)
               (Map.empty(login author \<mapsto> True), [])
      in case requestLoop seen requestedReviewers reviewers of
           Inl e \<Rightarrow> Inl e
         | Inr reviewers' \<Rightarrow>
             Inr (sortBy (compareReviewers toLowerCase reviewerLabel) reviewers'))"

subsection \<open>The commit-regrouping pass\<close>

text \<open>
  \<^verbatim>\<open>GitHubRef\<close> is declared in \<^verbatim>\<open>../common/githubRef\<close>; the pass reads its \<^verbatim>\<open>sha\<close>.
\<close>

record GitHubRef =
  gh_label :: string
  gh_ref :: string
  gh_sha :: string

text \<open>The variables of the loop of \<^verbatim>\<open>insertNewCommitsSinceReview\<close>.\<close>

record regroup =
  timelineEvents :: "TimelineEvent list"
  lastViewerReviewIndex :: int
  comittedDuringReview :: bool
  interReviewCommits :: "TimelineEvent list"

text \<open>
  \<^verbatim>\<open>array.splice(start, deleteCount, ...items)\<close> for \<open>0 \<le> start\<close>; a start beyond the
  end of the array is the end of the array.
\<close>

definition splice :: "nat \<Rightarrow> nat \<Rightarrow> 'a list \<Rightarrow> 'a list \<Rightarrow> 'a list" where
  "splice start deleteCount items xs = take start xs @ items @ drop (start + deleteCount) xs"

text \<open>
  \<^verbatim>\<open>
  for (let i = timelineEvents.length - 1; i > 0; i--) {
      if (timelineEvents[i].event === Common.EventType.Committed &&
          (timelineEvents[i] as Common.CommitEvent).sha === latestReviewCommitOid) {
          interReviewCommits.unshift({
              id: latestReviewCommitOid,
              event: Common.EventType.NewCommitsSinceReview
          });
          timelineEvents.splice(lastViewerReviewIndex + 1, 0, ...interReviewCommits);
          break;
      }
      else if (comittedDuringReview && timelineEvents[i].event === Common.EventType.Committed) {
          interReviewCommits.unshift(timelineEvents[i]);
          timelineEvents.splice(i, 1);
      }
      else if (!comittedDuringReview &&
               timelineEvents[i].event === Common.EventType.Reviewed &&
               (timelineEvents[i] as Common.ReviewEvent).user.login === currentUser) {
          lastViewerReviewIndex = i;
          comittedDuringReview = true;
      }
  }
  \<close>
  The first argument of \<open>regroupLoop\<close> after the parameters is the loop variable \<open>i\<close>.
  Reading \<^verbatim>\<open>.event\<close> of \<^verbatim>\<open>timelineEvents[i]\<close> beyond the end of the array raises a
  TypeError.
\<close>

fun regroupLoop :: "string \<Rightarrow> string \<Rightarrow> nat \<Rightarrow> regroup \<Rightarrow> error + regroup" where
  "regroupLoop latestReviewCommitOid currentUser 0 st = Inr st"
| "regroupLoop latestReviewCommitOid currentUser (Suc n) st =
     (let i = Suc n in
      if length (timelineEvents st) \<le> i then Inl TypeError
      else
        (let e = timelineEvents st ! i in
         if event e = Committed
            \<and> (case e of CommitEv c \<Rightarrow> ci_sha c = latestReviewCommitOid | _ \<Rightarrow> False)
         then
           (let inter = NewCommitsSinceReviewEv \<lparr>nc_id = latestReviewCommitOid\<rparr>
                          # interReviewCommits st
            in Inr (st\<lparr>interReviewCommits := inter,
                       timelineEvents :=
                         splice (nat (lastViewerReviewIndex st + 1)) 0 inter (timelineEvents st)\<rparr>))
         else if comittedDuringReview st \<and> event e = Committed
         then regroupLoop latestReviewCommitOid currentUser n
                (st\<lparr>interReviewCommits := e # interReviewCommits st,
                    timelineEvents := splice i 1 [] (timelineEvents st)\<rparr>)
         else if \<not> comittedDuringReview st \<and> event e = Reviewed
                 \<and> (case e of ReviewEv r \<Rightarrow> login (rv_user r) = currentUser | _ \<Rightarrow> False)
         then regroupLoop latestReviewCommitOid currentUser n
                (st\<lparr>lastViewerReviewIndex := int i, comittedDuringReview := True\<rparr>)
         else regroupLoop latestReviewCommitOid currentUser n st))"

text \<open>
  \<^verbatim>\<open>
  export function insertNewCommitsSinceReview(timelineEvents, latestReviewCommitOid: string | undefined,
                                              currentUser: string, head: GitHubRef | null) {
      if (latestReviewCommitOid && head && head.sha !== latestReviewCommitOid) {
          let lastViewerReviewIndex: number = timelineEvents.length - 1;
          let comittedDuringReview: boolean = false;
          let interReviewCommits: Common.TimelineEvent[] = [];
          for (...) { ... }
      }
  }
  \<close>
  The function returns the timeline array as the call leaves it. A string is truthy
  when it is not empty. On an empty array the loop variable starts at \<open>-1\<close> and the
  loop does not run; \<open>length timeline - 1\<close> is \<open>0\<close> there, and the loop does not run
  either.
\<close>

definition insertNewCommitsSinceReview ::
  "TimelineEvent list \<Rightarrow> string option \<Rightarrow> string \<Rightarrow> GitHubRef option
     \<Rightarrow> error + TimelineEvent list" where
  "insertNewCommitsSinceReview timeline latestReviewCommitOid currentUser head =
     (case (latestReviewCommitOid, head) of
        (Some oid', Some h) \<Rightarrow>
          if oid' \<noteq> [] \<and> gh_sha h \<noteq> oid'
          then (case regroupLoop oid' currentUser (length timeline - 1)
                       \<lparr>timelineEvents = timeline,
                        lastViewerReviewIndex = int (length timeline) - 1,
                        comittedDuringReview = False,
                        interReviewCommits = []\<rparr> of
                  Inl e \<Rightarrow> Inl e
                | Inr st \<Rightarrow> Inr (timelineEvents st))
          else Inr timeline
      | _ \<Rightarrow> Inr timeline)"

subsection \<open>Mergeability\<close>

datatype Mergeability = UNKNOWN | MERGEABLE | CONFLICTING

datatype MergeStateStatus =
  BEHIND | BLOCKED | CLEAN | DIRTY | HAS_HOOKS | STATUS_UNKNOWN | UNSTABLE

datatype PullRequestMergeability = Mergeable | NotMergeable | Conflict | Unknown | Behind

text \<open>
  \<^verbatim>\<open>
  export function parseMergeability(mergeability, mergeStateStatus) {
      let parsed: PullRequestMergeability;
      switch (mergeability) {
          case 'UNKNOWN':     parsed = PullRequestMergeability.Unknown; break;
          case 'MERGEABLE':   parsed = PullRequestMergeability.Mergeable; break;
          case 'CONFLICTING': parsed = PullRequestMergeability.Conflict; break;
      }
      if (parsed !== PullRequestMergeability.Conflict) {
          if (mergeStateStatus === 'BLOCKED') {
              parsed = PullRequestMergeability.NotMergeable;
          } else if (mergeStateStatus === 'BEHIND') {
              parsed = PullRequestMergeability.Behind;
          }
      }
      return parsed;
  }
  \<close>
  The two parameters have the string-literal union types of the source; the status
  \<^verbatim>\<open>'UNKNOWN'\<close> is the constructor \<open>STATUS_UNKNOWN\<close>.
\<close>

definition parseMergeability :: "Mergeability \<Rightarrow> MergeStateStatus \<Rightarrow> PullRequestMergeability" where
  "parseMergeability mergeability mergeStateStatus =
     (let parsed = (case mergeability of
                      UNKNOWN \<Rightarrow> Unknown
                    | MERGEABLE \<Rightarrow> Mergeable
                    | CONFLICTING \<Rightarrow> Conflict)
      in if parsed \<noteq> Conflict
         then (if mergeStateStatus = BLOCKED then NotMergeable
               else if mergeStateStatus = BEHIND then Behind
               else parsed)
         else parsed)"

subsection \<open>Sample data\<close>

text \<open>Concrete inputs on which the theorems below are evaluated.\<close>

definition noHunks :: "string \<Rightarrow> DiffHunk list" where
  "noHunks text = []"

definition account :: "string \<Rightarrow> IAccount" where
  "account l =
     \<lparr>login = l, url = ''https://github.com/'' @ l, avatarUrl = None, email = None,
      name = None\<rparr>"

definition anonymousComment :: ReviewComment where
  "anonymousComment =
     \<lparr>rc_databaseId = 101,
      rc_url = ''https://github.com/o/r/pull/1#discussion_r101'',
      rc_body = ''nit'',
      rc_bodyHTML = ''<p>nit</p>'',
      rc_path = ''src/a.ts'',
      rc_viewerCanDelete = False,
      rc_pullRequestReview = Some \<lparr>databaseId = 7\<rparr>,
      rc_diffHunk = '''',
      rc_position = Some 1,
      rc_commit = \<lparr>oid = ''abc''\<rparr>,
      rc_originalPosition = Some 1,
      rc_originalCommit = None,
      rc_author = None,
      rc_createdAt = ''2023-01-01T00:00:00Z'',
      rc_id = ''PRRC_101'',
      rc_state = ''SUBMITTED'',
      rc_replyTo = None,
      rc_reactionGroups =
        [\<lparr>rg_content = HEART, rg_totalCount = 2, rg_viewerHasReacted = True\<rparr>,
         \<lparr>rg_content = EYES, rg_totalCount = 0, rg_viewerHasReacted = False\<rparr>]\<rparr>"

definition replyToZero :: ReviewComment where
  "replyToZero =
     anonymousComment\<lparr>rc_databaseId := 102, rc_author := Some (account ''bob''),
                      rc_replyTo := Some \<lparr>databaseId = 0\<rparr>\<rparr>"

definition replyComment :: ReviewComment where
  "replyComment =
     anonymousComment\<lparr>rc_databaseId := 103, rc_author := Some (account ''bob''),
                      rc_replyTo := Some \<lparr>databaseId = 101\<rparr>\<rparr>"

definition submittedReview :: "ReviewComment list \<Rightarrow> SubmittedReview" where
  "submittedReview cs =
     \<lparr>sr_comments = \<lparr>nodes = cs\<rparr>,
      sr_submittedAt = ''2023-01-01T00:00:00Z'',
      sr_body = ''looks good'',
      sr_bodyHTML = ''<p>looks good</p>'',
      sr_url = ''https://github.com/o/r/pull/1#pullrequestreview-7'',
      sr_author = Some (account ''bob''),
      sr_authorAssociation = ''MEMBER'',
      sr_state = ''COMMENTED'',
      sr_databaseId = 7\<rparr>"

definition rawEvent :: "string \<Rightarrow> RawEvent" where
  "rawEvent typename =
     \<lparr>ev_typename = typename,
      ev_id = ''N_1'',
      ev_databaseId = 1,
      ev_url = ''https://github.com/o/r/pull/1'',
      ev_body = '''',
      ev_bodyHTML = '''',
      ev_author = None,
      ev_actor = None,
      ev_user = None,
      ev_viewerCanUpdate = False,
      ev_viewerCanDelete = False,
      ev_createdAt = ''2023-01-01T00:00:00Z'',
      ev_submittedAt = ''2023-01-01T00:00:00Z'',
      ev_authorAssociation = ''NONE'',
      ev_state = ''COMMENTED'',
      ev_commit =
        \<lparr>rcm_oid = ''abc'',
         rcm_author = \<lparr>ca_user = None, ca_name = ''bob'', ca_avatarUrl = '''',
                        ca_email = ''bob@example.com''\<rparr>,
         rcm_message = ''fix'',
         rcm_authoredDate = ''2023-01-01T00:00:00Z'',
         rcm_commitUrl = ''https://github.com/o/r/commit/abc''\<rparr>,
      ev_mergeRef = \<lparr>ref_name = ''main''\<rparr>,
      ev_headRefName = ''feature''\<rparr>"

definition reviewOf :: "string \<Rightarrow> string \<Rightarrow> ReviewEvent" where
  "reviewOf l s =
     \<lparr>rv_comments = [], rv_submittedAt = ''2023-01-01T00:00:00Z'', rv_body = '''',
      rv_bodyHTML = '''', rv_htmlUrl = '''', rv_user = account l,
      rv_authorAssociation = ''MEMBER'', rv_state = s, rv_id = 7\<rparr>"

definition reviewBy :: "string \<Rightarrow> string \<Rightarrow> TimelineEvent" where
  "reviewBy l s = ReviewEv (reviewOf l s)"

definition team :: "string \<Rightarrow> ITeam" where
  "team n = \<lparr>t_name = n, t_avatarUrl = None\<rparr>"

text \<open>
  The sample logins and team names are ASCII text. For such text the UTF-16 code units
  are the character codes, a sample display label is the reviewer's identity, and
  \<^verbatim>\<open>toLowerCase\<close> maps the code units of \<^verbatim>\<open>A\<close> to \<^verbatim>\<open>Z\<close> to those of \<^verbatim>\<open>a\<close> to
  \<^verbatim>\<open>z\<close> and leaves every other ASCII code unit as it is.
\<close>

definition codeUnits :: "string \<Rightarrow> jsString" where
  "codeUnits s = map (\<lambda>c. of_nat (of_char c)) s"

definition identityLabel :: "Reviewer \<Rightarrow> jsString" where
  "identityLabel r = codeUnits (reviewerId r)"

definition asciiLowerCase :: "jsString \<Rightarrow> jsString" where
  "asciiLowerCase s = map (\<lambda>u. if 0x41 \<le> u \<and> u \<le> 0x5A then u + 0x20 else u) s"

definition commitWith :: "string \<Rightarrow> CommitEvent" where
  "commitWith s =
     \<lparr>ci_id = ''C_'' @ s, ci_sha = s, ci_author = account ''bob'', ci_htmlUrl = '''',
      ci_message = ''fix'', ci_authoredDate = Date ''2023-01-01T00:00:00Z''\<rparr>"

definition commitOf :: "string \<Rightarrow> TimelineEvent" where
  "commitOf s = CommitEv (commitWith s)"

definition headAt :: "string \<Rightarrow> GitHubRef" where
  "headAt s = \<lparr>gh_label = ''o:feature'', gh_ref = ''feature'', gh_sha = s\<rparr>"

section \<open>Theorems\<close>

subsection \<open>The event-type classifier\<close>

text \<open>
  C7. For every discriminator string, \<open>convertGraphQLEventType\<close> returns a canonical
  event kind (the function is total): each of the eight discriminators of the switch
  maps to its kind, and every string outside that set maps to \<open>Other\<close>.
\<close>

theorem convertGraphQLEventType_total:
  "convertGraphQLEventType ''PullRequestCommit'' = Committed
   \<and> convertGraphQLEventType ''LabeledEvent'' = Labeled
   \<and> convertGraphQLEventType ''MilestonedEvent'' = Milestoned
   \<and> convertGraphQLEventType ''AssignedEvent'' = Assigned
   \<and> convertGraphQLEventType ''HeadRefDeletedEvent'' = HeadRefDeleted
   \<and> convertGraphQLEventType ''IssueComment'' = Commented
   \<and> convertGraphQLEventType ''PullRequestReview'' = Reviewed
   \<and> convertGraphQLEventType ''MergedEvent'' = Merged
   \<and> (text \<notin> {''PullRequestCommit'', ''LabeledEvent'', ''MilestonedEvent'',
                ''AssignedEvent'', ''HeadRefDeletedEvent'', ''IssueComment'',
                ''PullRequestReview'', ''MergedEvent''}
        \<longrightarrow> convertGraphQLEventType text = Other)"
  by (simp add: convertGraphQLEventType_def)

theorem convertGraphQLEventType_total_witness:
  "''DeployedEvent'' \<notin> {''PullRequestCommit'', ''LabeledEvent'', ''MilestonedEvent'',
                ''AssignedEvent'', ''HeadRefDeletedEvent'', ''IssueComment'',
                ''PullRequestReview'', ''MergedEvent''}
   \<and> convertGraphQLEventType ''DeployedEvent'' = Other"
  using convertGraphQLEventType_total [of "''DeployedEvent''"] by simp

subsection \<open>Mergeability\<close>

text \<open>
  C8. \<open>parseMergeability\<close> maps UNKNOWN, MERGEABLE and CONFLICTING to Unknown,
  Mergeable and Conflict, then overrides the result to NotMergeable when the status is
  BLOCKED and to Behind when it is BEHIND, except when the base mapping is Conflict;
  in particular (CONFLICTING, BLOCKED) gives Conflict, (MERGEABLE, BEHIND) gives Behind
  and (MERGEABLE, CLEAN) gives Mergeable.
\<close>

theorem parseMergeability_table:
  "parseMergeability CONFLICTING s = Conflict
   \<and> parseMergeability UNKNOWN BLOCKED = NotMergeable
   \<and> parseMergeability MERGEABLE BLOCKED = NotMergeable
   \<and> parseMergeability UNKNOWN BEHIND = Behind
   \<and> parseMergeability MERGEABLE BEHIND = Behind
   \<and> parseMergeability UNKNOWN CLEAN = Unknown
   \<and> parseMergeability UNKNOWN DIRTY = Unknown
   \<and> parseMergeability UNKNOWN HAS_HOOKS = Unknown
   \<and> parseMergeability UNKNOWN STATUS_UNKNOWN = Unknown
   \<and> parseMergeability UNKNOWN UNSTABLE = Unknown
   \<and> parseMergeability MERGEABLE CLEAN = Mergeable
   \<and> parseMergeability MERGEABLE DIRTY = Mergeable
   \<and> parseMergeability MERGEABLE HAS_HOOKS = Mergeable
   \<and> parseMergeability MERGEABLE STATUS_UNKNOWN = Mergeable
   \<and> parseMergeability MERGEABLE UNSTABLE = Mergeable
   \<and> parseMergeability CONFLICTING BLOCKED = Conflict"
  by (simp add: parseMergeability_def)

subsection \<open>Comment normalisation\<close>

lemma mapM_returns:
  assumes "\<And>x. \<exists>y. f x = Inr y"
  shows "\<exists>ys. mapM f xs = Inr ys \<and> map Inr ys = map f xs"
proof (induction xs)
  case Nil
  show ?case by simp
next
  case (Cons x xs)
  from assms obtain y where "f x = Inr y" by blast
  with Cons show ?case by auto
qed

lemma reactionContentEmojiMapping_defined: "\<exists>row. reactionContentEmojiMapping c = Some row"
  by (cases c) (simp_all add: reactionContentEmojiMapping_def getReactionGroup_def)

text \<open>Every reaction content has a row in the table, so the lookup never raises.\<close>

lemma parseGraphQLReaction_returns: "\<exists>rs. parseGraphQLReaction gs = Inr rs"
proof -
  have "\<exists>ys. mapM f xs = Inr ys \<and> map Inr ys = map f xs"
    if "f = (\<lambda>g. case reactionContentEmojiMapping (rg_content g) of
               None \<Rightarrow> Inl TypeError
             | Some row \<Rightarrow>
                 Inr \<lparr>r_label = row_label row, r_count = rg_totalCount g,
                      r_icon = row_icon row,
                      r_viewerHasReacted = rg_viewerHasReacted g\<rparr>)"
    for f :: "ReactionGroup \<Rightarrow> error + Reaction" and xs
  proof (rule mapM_returns)
    fix x :: ReactionGroup
    from reactionContentEmojiMapping_defined [of "rg_content x"]
    obtain row where "reactionContentEmojiMapping (rg_content x) = Some row" by blast
    then show "\<exists>y. f x = Inr y" by (simp add: that)
  qed
  then show ?thesis unfolding parseGraphQLReaction_def by blast
qed

lemma parseGraphQLComment_returns: "\<exists>n. parseGraphQLComment pdh c r = Inr n"
  using parseGraphQLReaction_returns [of "rc_reactionGroups c"]
  by (auto simp: parseGraphQLComment_def Let_def)

lemma parseGraphQLComment_user:
  "map_sum id c_user (parseGraphQLComment pdh c r) =
     Inr (case rc_author c of Some a \<Rightarrow> Some (parseAuthor (Some a)) | None \<Rightarrow> None)"
  using parseGraphQLReaction_returns [of "rc_reactionGroups c"]
  by (auto simp: parseGraphQLComment_def Let_def)

lemma parseGraphQLComment_fields:
  "parseGraphQLComment pdh c r = Inr n \<Longrightarrow>
     c_inReplyToId n = map_option databaseId (rc_replyTo c) \<and> c_isResolved n = r"
  by (auto simp: parseGraphQLComment_def Let_def split: sum.splits)

text \<open>
  C3, as stated: for every raw comment whose author is absent, the normalised comment's
  user has an empty login and an empty url. It fails: \<open>parseGraphQLComment\<close> guards the
  call of \<open>parseAuthor\<close> with \<^verbatim>\<open>comment.author ? ... : undefined\<close>, so the comment
  \<open>anonymousComment\<close>, which has no author, is normalised to a comment whose user is
  undefined.
\<close>

theorem parseGraphQLComment_absent_author_undefined:
  "rc_author anonymousComment = None
   \<and> map_sum id c_user (parseGraphQLComment noHunks anonymousComment False) = Inr None"
  by (simp add: parseGraphQLComment_user anonymousComment_def)

text \<open>
  C3, amended: \<open>parseAuthor\<close> maps an absent author to the ghost account (empty login,
  empty url); \<open>parseGraphQLComment\<close> returns for every raw comment, applies
  \<open>parseAuthor\<close> to a present author, and leaves the user of a comment without author
  undefined.
\<close>

theorem parseGraphQLComment_user_from_author:
  "map_sum id c_user (parseGraphQLComment pdh (c\<lparr>rc_author := None\<rparr>) r) = Inr None
   \<and> map_sum id c_user (parseGraphQLComment pdh (c\<lparr>rc_author := Some a\<rparr>) r)
       = Inr (Some (parseAuthor (Some a)))
   \<and> login (parseAuthor None) = '''' \<and> url (parseAuthor None) = ''''"
  by (simp add: parseGraphQLComment_user parseAuthor_def)

subsection \<open>Submitted reviews\<close>

lemma map_Inr_filter:
  assumes "map Inr ys = map f xs" and "\<And>x y. f x = Inr y \<Longrightarrow> q y = p x"
  shows "map Inr (filter q ys) = map f (filter p xs)"
  using assms(1)
proof (induction xs arbitrary: ys)
  case Nil
  then show ?case by simp
next
  case (Cons x xs)
  then obtain y ys' where ys: "ys = y # ys'" "Inr y = f x" "map Inr ys' = map f xs"
    by (cases ys) auto
  from ys(2) assms(2) have "q y = p x" by metis
  with ys Cons.IH [OF ys(3)] show ?case by auto
qed

text \<open>
  C10, as stated: the comments of the review event are exactly the normalised forms of
  the input comments that carry no reply target. It fails on a reply whose target has
  the database id \<open>0\<close>: the filter is \<^verbatim>\<open>!c.inReplyToId\<close>, and \<^verbatim>\<open>!0\<close> holds. Of the
  two replies \<open>replyToZero\<close> and \<open>replyComment\<close> the first is kept.
\<close>

theorem parseGraphQLReviewEvent_keeps_reply_to_zero:
  "map_sum id (map c_inReplyToId \<circ> rv_comments)
     (parseGraphQLReviewEvent noHunks (submittedReview [replyToZero, replyComment]))
   = Inr [Some 0]"
  by (simp add: parseGraphQLReviewEvent_def submittedReview_def replyToZero_def
      replyComment_def anonymousComment_def parseGraphQLComment_def parseGraphQLReaction_def
      reactionContentEmojiMapping_def getReactionGroup_def falsy_def Let_def)

text \<open>
  C10, amended: for every submitted-review payload \<open>parseGraphQLReviewEvent\<close> returns,
  and the comments of the review event are exactly the normalised forms
  (\<open>parseGraphQLComment\<close> with \<open>isResolved = False\<close>) of those input comments whose
  \<open>inReplyToId\<close> is falsy, that is, that have no reply target or a reply target of
  database id \<open>0\<close>, in input order; each of them has \<open>isResolved = False\<close>.
\<close>

theorem parseGraphQLReviewEvent_comments:
  "\<exists>ev. parseGraphQLReviewEvent pdh review = Inr ev
     \<and> map Inr (rv_comments ev) =
         map (\<lambda>comment. parseGraphQLComment pdh comment False)
           (filter (\<lambda>comment. falsy (map_option databaseId (rc_replyTo comment)))
              (nodes (sr_comments review)))
     \<and> map c_isResolved (rv_comments ev) = replicate (length (rv_comments ev)) False"
proof -
  let ?f = "\<lambda>comment. parseGraphQLComment pdh comment False"
  let ?xs = "nodes (sr_comments review)"
  from mapM_returns [of ?f ?xs] parseGraphQLComment_returns
  obtain ys where ys: "mapM ?f ?xs = Inr ys" and eq: "map Inr ys = map ?f ?xs"
    by blast
  have kept: "map Inr (filter (\<lambda>c. falsy (c_inReplyToId c)) ys)
      = map ?f (filter (\<lambda>comment. falsy (map_option databaseId (rc_replyTo comment))) ?xs)"
    using eq by (rule map_Inr_filter) (simp add: parseGraphQLComment_fields)
  have res: "\<not> c_isResolved n" if "n \<in> set ys" for n
  proof -
    from that have "Inr n \<in> set (map ?f ?xs)" unfolding eq [symmetric] by simp
    then obtain c where "?f c = Inr n" by auto
    then show ?thesis using parseGraphQLComment_fields by blast
  qed
  have "map c_isResolved zs = replicate (length zs) False" if "set zs \<subseteq> set ys" for zs
    using that by (induction zs) (auto simp: res)
  then have "map c_isResolved (filter (\<lambda>c. falsy (c_inReplyToId c)) ys)
      = replicate (length (filter (\<lambda>c. falsy (c_inReplyToId c)) ys)) False"
    by simp
  with ys kept show ?thesis by (simp add: parseGraphQLReviewEvent_def)
qed

subsection \<open>The timeline normaliser\<close>

lemma loopBody_append: "loopBody acc e = acc @ loopBody [] e"
  by (simp add: loopBody_def split: EventType.splits)

lemma foldl_loopBody: "foldl loopBody acc es = acc @ concat (map (loopBody []) es)"
proof (induction es arbitrary: acc)
  case Nil
  show ?case by simp
next
  case (Cons e es)
  show ?case by (simp add: Cons.IH loopBody_append [of acc e])
qed

lemma event_loopBody:
  "map event (loopBody [] e) =
     (if convertGraphQLEventType (ev_typename e)
           \<in> {Commented, Reviewed, Committed, Merged, Assigned, HeadRefDeleted}
      then [convertGraphQLEventType (ev_typename e)] else [])"
  by (simp add: loopBody_def split: EventType.splits)

text \<open>
  C1, as stated: \<open>parseGraphQLTimelineEvents\<close> emits one event per input event, an
  event classified as \<open>Other\<close> included, so that the output is as long as the input.
  It fails: the switch has no branch for \<open>Other\<close>, so an event with the unknown
  discriminator \<^verbatim>\<open>DeployedEvent\<close> is dropped, and a timeline of three events with
  that event in the middle is normalised to two events.
\<close>

theorem parseGraphQLTimelineEvents_drops_other:
  "convertGraphQLEventType (ev_typename (rawEvent ''DeployedEvent'')) = Other
   \<and> parseGraphQLTimelineEvents [rawEvent ''DeployedEvent''] = []
   \<and> map event (parseGraphQLTimelineEvents
        [rawEvent ''IssueComment'', rawEvent ''DeployedEvent'', rawEvent ''PullRequestCommit''])
       = [Commented, Committed]"
  by (simp add: parseGraphQLTimelineEvents_def loopBody_def rawEvent_def
      convertGraphQLEventType_def)

text \<open>
  C1, amended: \<open>parseGraphQLTimelineEvents\<close> emits, in input order, one canonical event
  for each input event whose discriminator classifies to \<open>Commented\<close>, \<open>Reviewed\<close>,
  \<open>Committed\<close>, \<open>Merged\<close>, \<open>Assigned\<close> or \<open>HeadRefDeleted\<close>, of that kind, and nothing
  for an event classified as \<open>Labeled\<close>, \<open>Milestoned\<close> or \<open>Other\<close>: the output is the
  concatenation of what the loop body emits for each event, and the kinds of the output
  are the kinds of the input with the three unhandled kinds removed.
\<close>

theorem parseGraphQLTimelineEvents_handled_kinds:
  "parseGraphQLTimelineEvents events = concat (map (loopBody []) events)
   \<and> map event (parseGraphQLTimelineEvents events) =
       filter (\<lambda>k. k \<in> {Commented, Reviewed, Committed, Merged, Assigned, HeadRefDeleted})
         (map (\<lambda>e. convertGraphQLEventType (ev_typename e)) events)"
proof -
  have 1: "parseGraphQLTimelineEvents events = concat (map (loopBody []) events)"
    by (simp add: parseGraphQLTimelineEvents_def foldl_loopBody)
  have "map event (concat (map (loopBody []) es)) =
       filter (\<lambda>k. k \<in> {Commented, Reviewed, Committed, Merged, Assigned, HeadRefDeleted})
         (map (\<lambda>e. convertGraphQLEventType (ev_typename e)) es)" for es
    by (induction es) (simp_all add: event_loopBody)
  with 1 show ?thesis by simp
qed

subsection \<open>The commit-regrouping pass\<close>

text \<open>
  C9. \<open>insertNewCommitsSinceReview\<close> leaves the timeline array unchanged whenever its
  precondition fails: when the captured review-commit sha is undefined, or the head ref
  is null, or the sha of the head equals the captured review-commit sha.
\<close>

theorem insertNewCommitsSinceReview_noop:
  "latestReviewCommitOid = None \<or> head = None
     \<or> (\<exists>h. head = Some h \<and> latestReviewCommitOid = Some (gh_sha h))
   \<Longrightarrow> insertNewCommitsSinceReview timeline latestReviewCommitOid currentUser head
         = Inr timeline"
  by (auto simp: insertNewCommitsSinceReview_def split: option.splits)

theorem insertNewCommitsSinceReview_noop_witness:
  "insertNewCommitsSinceReview
       [commitOf ''abc'', reviewBy ''alice'' ''APPROVED'', commitOf ''def'']
       None ''alice'' (Some (headAt ''def''))
     = Inr [commitOf ''abc'', reviewBy ''alice'' ''APPROVED'', commitOf ''def'']
   \<and> insertNewCommitsSinceReview
         [commitOf ''abc'', reviewBy ''alice'' ''APPROVED'', commitOf ''def'']
         (Some ''abc'') ''alice'' None
       = Inr [commitOf ''abc'', reviewBy ''alice'' ''APPROVED'', commitOf ''def'']
   \<and> insertNewCommitsSinceReview
         [commitOf ''abc'', reviewBy ''alice'' ''APPROVED'', commitOf ''def'']
         (Some (gh_sha (headAt ''def''))) ''alice'' (Some (headAt ''def''))
       = Inr [commitOf ''abc'', reviewBy ''alice'' ''APPROVED'', commitOf ''def'']"
  using
    insertNewCommitsSinceReview_noop
      [of None "Some (headAt ''def'')"
          "[commitOf ''abc'', reviewBy ''alice'' ''APPROVED'', commitOf ''def'']" "''alice''"]
    insertNewCommitsSinceReview_noop
      [of "Some ''abc''" None
          "[commitOf ''abc'', reviewBy ''alice'' ''APPROVED'', commitOf ''def'']" "''alice''"]
    insertNewCommitsSinceReview_noop
      [of "Some (gh_sha (headAt ''def''))" "Some (headAt ''def'')"
          "[commitOf ''abc'', reviewBy ''alice'' ''APPROVED'', commitOf ''def'']" "''alice''"]
  by simp

text \<open>
  C2, as stated: on the timeline \<open>[Reviewed by U, Committed X, Committed Y]\<close> with
  captured sha \<open>X\<close> and a head at another sha, the pass puts a marker
  \<open>NewCommitsSinceReview X\<close> after the review and before the commit \<open>X\<close>. It fails:
  the scan runs from the newest event down to index 1 and never reaches the review at
  index 0, so when it meets the commit \<open>X\<close> the insertion point is still its initial
  value, the last index, and the marker is appended after both commits. Here \<open>U\<close> is
  alice, \<open>X\<close> is \<open>abc\<close> and \<open>Y\<close> is \<open>def\<close>.
\<close>

theorem insertNewCommitsSinceReview_marker_appended:
  "insertNewCommitsSinceReview
       [reviewBy ''alice'' ''APPROVED'', commitOf ''abc'', commitOf ''def'']
       (Some ''abc'') ''alice'' (Some (headAt ''def''))
     = Inr [reviewBy ''alice'' ''APPROVED'', commitOf ''abc'', commitOf ''def'',
            NewCommitsSinceReviewEv \<lparr>nc_id = ''abc''\<rparr>]
   \<and> insertNewCommitsSinceReview
         [reviewBy ''alice'' ''APPROVED'', commitOf ''abc'', commitOf ''def'']
         (Some ''abc'') ''alice'' (Some (headAt ''def''))
       \<noteq> Inr [reviewBy ''alice'' ''APPROVED'', NewCommitsSinceReviewEv \<lparr>nc_id = ''abc''\<rparr>,
              commitOf ''abc'', commitOf ''def'']"
  by (simp add: insertNewCommitsSinceReview_def splice_def eval_nat_numeral Let_def
      reviewBy_def commitOf_def commitWith_def headAt_def)

text \<open>
  C2, amended: for the timeline \<open>[Reviewed, Committed X, Committed Y]\<close>, with captured
  review-commit sha \<open>X\<close> (not empty), any current user and a live head whose sha
  differs from \<open>X\<close>, \<open>insertNewCommitsSinceReview\<close> leaves the review and the two
  commits where they are and appends the synthetic \<open>NewCommitsSinceReview\<close> event with
  id \<open>X\<close> after them.
\<close>

theorem insertNewCommitsSinceReview_review_first:
  assumes "X \<noteq> ''''" and "gh_sha head \<noteq> X" and "ci_sha cx = X"
  shows "insertNewCommitsSinceReview [ReviewEv r, CommitEv cx, CommitEv cy]
           (Some X) U (Some head)
         = Inr [ReviewEv r, CommitEv cx, CommitEv cy, NewCommitsSinceReviewEv \<lparr>nc_id = X\<rparr>]"
  using assms
  by (simp add: insertNewCommitsSinceReview_def splice_def eval_nat_numeral Let_def)

theorem insertNewCommitsSinceReview_review_first_witness:
  "''1a2b'' \<noteq> '''' \<and> gh_sha (headAt ''3c4d'') \<noteq> ''1a2b''
   \<and> ci_sha (commitWith ''1a2b'') = ''1a2b''
   \<and> insertNewCommitsSinceReview
         [ReviewEv (reviewOf ''dana'' ''COMMENTED''), CommitEv (commitWith ''1a2b''),
          CommitEv (commitWith ''3c4d'')]
         (Some ''1a2b'') ''dana'' (Some (headAt ''3c4d''))
       = Inr [ReviewEv (reviewOf ''dana'' ''COMMENTED''), CommitEv (commitWith ''1a2b''),
              CommitEv (commitWith ''3c4d''), NewCommitsSinceReviewEv \<lparr>nc_id = ''1a2b''\<rparr>]"
  using insertNewCommitsSinceReview_review_first
      [where X = "''1a2b''" and head = "headAt ''3c4d''" and cx = "commitWith ''1a2b''"
         and r = "reviewOf ''dana'' ''COMMENTED''" and cy = "commitWith ''3c4d''"
         and U = "''dana''"]
  by (simp add: headAt_def commitWith_def)

subsection \<open>The reviewer-state reconciler\<close>

lemma reviewerIds_append [simp]: "reviewerIds (xs @ ys) = reviewerIds xs @ reviewerIds ys"
  by (induction xs) auto

lemma find_reviewerIds:
  "(find (\<lambda>r. reviewerId (rs_reviewer r) = k) rs = None) = (k \<notin> set (reviewerIds rs))"
  by (induction rs) auto

lemma reviewerIds_setFirst: "reviewerIds (setFirst p (\<lambda>r. r\<lparr>rs_state := s\<rparr>) rs) = reviewerIds rs"
  by (induction rs) auto

text \<open>
  The invariant of the first loop: \<open>seen\<close> holds exactly the author's login and the
  identities of the entries made so far, which are pairwise distinct and differ from
  the author's login.
\<close>

lemma reviewLoop_invariant:
  assumes "reviewLoop evs n (seen, rs) = (seen', rs')"
    and "\<forall>k. (seen k = Some True) = (k = a \<or> k \<in> set (reviewerIds rs))"
    and "distinct (reviewerIds rs)" and "a \<notin> set (reviewerIds rs)"
  shows "(\<forall>k. (seen' k = Some True) = (k = a \<or> k \<in> set (reviewerIds rs')))
         \<and> distinct (reviewerIds rs') \<and> a \<notin> set (reviewerIds rs')"
  using assms
proof (induction n arbitrary: seen rs)
  case 0
  then show ?case by simp
next
  case (Suc n)
  let ?l = "login (rv_user (evs ! n))"
  show ?case
  proof (cases "seen ?l = Some True")
    case True
    with Suc.prems(1) have "reviewLoop evs n (seen, rs) = (seen', rs')" by (simp add: Let_def)
    from Suc.IH [OF this Suc.prems(2-4)] show ?thesis .
  next
    case False
    let ?seen = "seen(?l \<mapsto> True)"
    let ?rs = "rs @ [\<lparr>rs_reviewer = Account (rv_user (evs ! n)), rs_state = rv_state (evs ! n)\<rparr>]"
    from False Suc.prems(1) have run: "reviewLoop evs n (?seen, ?rs) = (seen', rs')"
      by (simp add: Let_def)
    from False Suc.prems(2) have new: "?l \<noteq> a" "?l \<notin> set (reviewerIds rs)" by auto
    have 1: "\<forall>k. (?seen k = Some True) = (k = a \<or> k \<in> set (reviewerIds ?rs))"
      using Suc.prems(2) by auto
    have 2: "distinct (reviewerIds ?rs)" using Suc.prems(3) new by simp
    have 3: "a \<notin> set (reviewerIds ?rs)" using Suc.prems(4) new by auto
    from Suc.IH [OF run 1 2 3] show ?thesis .
  qed
qed

lemma reviewLoop_start:
  assumes "reviewLoop evs n (Map.empty(a \<mapsto> True), []) = (seen, rs)"
  shows "(\<forall>k. (seen k = Some True) = (k = a \<or> k \<in> set (reviewerIds rs)))
         \<and> distinct (reviewerIds rs) \<and> a \<notin> set (reviewerIds rs)"
  by (rule reviewLoop_invariant [OF assms]) auto

text \<open>The second loop never adds an entry for an identity that \<open>seen\<close> holds.\<close>

lemma requestLoop_author:
  assumes "requestLoop seen reqs rs = Inr out" and "seen a = Some True"
    and "a \<notin> set (reviewerIds rs)"
  shows "a \<notin> set (reviewerIds out)"
  using assms
proof (induction reqs arbitrary: rs)
  case Nil
  then show ?case by simp
next
  case (Cons request rest)
  show ?case
  proof (cases "seen (reviewerId request) = Some True")
    case False
    let ?rs = "rs @ [\<lparr>rs_reviewer = request, rs_state = ''REQUESTED''\<rparr>]"
    from False Cons.prems(2) have "reviewerId request \<noteq> a" by auto
    with Cons.prems(3) have "a \<notin> set (reviewerIds ?rs)" by auto
    moreover from False Cons.prems(1) have "requestLoop seen rest ?rs = Inr out" by simp
    ultimately show ?thesis using Cons.IH Cons.prems(2) by blast
  next
    case True
    let ?rs = "setFirst (\<lambda>r. reviewerId (rs_reviewer r) = reviewerId request)
                 (\<lambda>r. r\<lparr>rs_state := ''REQUESTED''\<rparr>) rs"
    from True Cons.prems(1) have "requestLoop seen rest ?rs = Inr out"
      by (simp split: option.splits)
    moreover have "a \<notin> set (reviewerIds ?rs)"
      using Cons.prems(3) by (simp add: reviewerIds_setFirst)
    ultimately show ?thesis using Cons.IH Cons.prems(2) by blast
  qed
qed

lemma requestLoop_distinct:
  assumes "requestLoop seen reqs rs = Inr out" and "distinct (reviewerIds rs)"
    and "distinct (map reviewerId reqs)"
    and "\<forall>k \<in> set (reviewerIds rs). seen k = Some True \<or> k \<notin> set (map reviewerId reqs)"
  shows "distinct (reviewerIds out)"
  using assms
proof (induction reqs arbitrary: rs)
  case Nil
  then show ?case by simp
next
  case (Cons request rest)
  show ?case
  proof (cases "seen (reviewerId request) = Some True")
    case False
    let ?rs = "rs @ [\<lparr>rs_reviewer = request, rs_state = ''REQUESTED''\<rparr>]"
    from False Cons.prems(1) have run: "requestLoop seen rest ?rs = Inr out" by simp
    from False Cons.prems(4) have fresh: "reviewerId request \<notin> set (reviewerIds rs)" by auto
    with Cons.prems(2) have 1: "distinct (reviewerIds ?rs)" by simp
    from Cons.prems(3) have 2: "distinct (map reviewerId rest)" by simp
    have 3: "\<forall>k \<in> set (reviewerIds ?rs). seen k = Some True \<or> k \<notin> set (map reviewerId rest)"
      using Cons.prems(3,4) by auto
    from Cons.IH [OF run 1 2 3] show ?thesis .
  next
    case True
    let ?rs = "setFirst (\<lambda>r. reviewerId (rs_reviewer r) = reviewerId request)
                 (\<lambda>r. r\<lparr>rs_state := ''REQUESTED''\<rparr>) rs"
    from True Cons.prems(1) have run: "requestLoop seen rest ?rs = Inr out"
      by (simp split: option.splits)
    from Cons.prems(2) have 1: "distinct (reviewerIds ?rs)" by (simp add: reviewerIds_setFirst)
    from Cons.prems(3) have 2: "distinct (map reviewerId rest)" by simp
    have 3: "\<forall>k \<in> set (reviewerIds ?rs). seen k = Some True \<or> k \<notin> set (map reviewerId rest)"
      using Cons.prems(4) by (auto simp: reviewerIds_setFirst)
    from Cons.IH [OF run 1 2 3] show ?thesis .
  qed
qed

text \<open>
  The second loop raises exactly when a requested reviewer has the identity \<open>a\<close> that
  \<open>seen\<close> holds without an entry: \<^verbatim>\<open>find\<close> returns \<^verbatim>\<open>undefined\<close> there.
\<close>

lemma requestLoop_raises_iff:
  assumes "\<forall>k. seen k = Some True \<longrightarrow> k = a \<or> k \<in> set (reviewerIds rs)"
    and "seen a = Some True" and "a \<notin> set (reviewerIds rs)"
  shows "(requestLoop seen reqs rs = Inl TypeError) = (a \<in> set (map reviewerId reqs))"
  using assms
proof (induction reqs arbitrary: rs)
  case Nil
  then show ?case by simp
next
  case (Cons request rest)
  show ?case
  proof (cases "seen (reviewerId request) = Some True")
    case False
    let ?rs = "rs @ [\<lparr>rs_reviewer = request, rs_state = ''REQUESTED''\<rparr>]"
    from False Cons.prems(2) have ne: "reviewerId request \<noteq> a" by auto
    have 1: "\<forall>k. seen k = Some True \<longrightarrow> k = a \<or> k \<in> set (reviewerIds ?rs)"
      using Cons.prems(1) by auto
    have 3: "a \<notin> set (reviewerIds ?rs)" using Cons.prems(3) ne by auto
    from Cons.IH [OF 1 Cons.prems(2) 3] False ne show ?thesis by auto
  next
    case True
    let ?p = "\<lambda>r. reviewerId (rs_reviewer r) = reviewerId request"
    let ?rs = "setFirst ?p (\<lambda>r. r\<lparr>rs_state := ''REQUESTED''\<rparr>) rs"
    show ?thesis
    proof (cases "reviewerId request = a")
      case a: True
      with Cons.prems(3) have "find ?p rs = None" by (simp add: find_reviewerIds)
      with True a show ?thesis by simp
    next
      case ne: False
      with True Cons.prems(1) have "reviewerId request \<in> set (reviewerIds rs)" by blast
      then have "find ?p rs \<noteq> None" by (simp add: find_reviewerIds)
      then obtain r where found: "find ?p rs = Some r" by blast
      have 1: "\<forall>k. seen k = Some True \<longrightarrow> k = a \<or> k \<in> set (reviewerIds ?rs)"
        using Cons.prems(1) by (simp add: reviewerIds_setFirst)
      have 3: "a \<notin> set (reviewerIds ?rs)" using Cons.prems(3) by (simp add: reviewerIds_setFirst)
      from Cons.IH [OF 1 Cons.prems(2) 3] True found ne show ?thesis by auto
    qed
  qed
qed

text \<open>The sort permutes the entries.\<close>

lemma set_reviewerIds_insertSorted:
  "set (reviewerIds (insertSorted cmp x ys))
     = insert (reviewerId (rs_reviewer x)) (set (reviewerIds ys))"
proof (induction ys)
  case Nil
  show ?case by simp
next
  case (Cons y ys)
  show ?case
  proof (cases "cmp x y < 0")
    case True
    then show ?thesis by simp
  next
    case False
    then show ?thesis by (simp add: Cons.IH insert_commute)
  qed
qed

lemma distinct_reviewerIds_insertSorted:
  "distinct (reviewerIds (insertSorted cmp x ys))
     = (reviewerId (rs_reviewer x) \<notin> set (reviewerIds ys) \<and> distinct (reviewerIds ys))"
proof (induction ys)
  case Nil
  show ?case by simp
next
  case (Cons y ys)
  show ?case
  proof (cases "cmp x y < 0")
    case True
    then show ?thesis by simp
  next
    case False
    then show ?thesis
      by (auto simp: Cons.IH set_reviewerIds_insertSorted)
  qed
qed

lemma reviewerIds_sortBy:
  "set (reviewerIds (sortBy cmp xs)) = set (reviewerIds xs)"
  "distinct (reviewerIds (sortBy cmp xs)) = distinct (reviewerIds xs)"
proof -
  have "set (reviewerIds (foldl (\<lambda>sorted x. insertSorted cmp x sorted) acc xs))
          = set (reviewerIds acc) \<union> set (reviewerIds xs)
        \<and> distinct (reviewerIds (foldl (\<lambda>sorted x. insertSorted cmp x sorted) acc xs))
          = distinct (reviewerIds (acc @ xs))" for acc
  proof (induction xs arbitrary: acc)
    case Nil
    show ?case by simp
  next
    case (Cons x xs)
    show ?case
      by (simp add: Cons.IH set_reviewerIds_insertSorted distinct_reviewerIds_insertSorted)
        blast
  qed
  from this [of "[]"] show "set (reviewerIds (sortBy cmp xs)) = set (reviewerIds xs)"
    and "distinct (reviewerIds (sortBy cmp xs)) = distinct (reviewerIds xs)"
    by (simp_all add: sortBy_def)
qed

lemma parseReviewers_unfold:
  assumes "reviewLoop (reviewEventsOf events) (length (reviewEventsOf events))
             (Map.empty(login author \<mapsto> True), []) = (seen, rs)"
  shows "parseReviewers toLowerCase reviewerLabel requested events author
         = (case requestLoop seen requested rs of
              Inl e \<Rightarrow> Inl e
            | Inr out \<Rightarrow> Inr (sortBy (compareReviewers toLowerCase reviewerLabel) out))"
  unfolding parseReviewers_def Let_def assms by simp

text \<open>
  \<open>parseReviewers\<close> raises exactly when a requested reviewer has the author's login as
  its identity, and returns a list otherwise.
\<close>

lemma parseReviewers_raises_iff:
  "(parseReviewers toLowerCase reviewerLabel requested events author = Inl TypeError)
     = (login author \<in> set (map reviewerId requested))"
proof -
  obtain seen rs where run:
    "reviewLoop (reviewEventsOf events) (length (reviewEventsOf events))
       (Map.empty(login author \<mapsto> True), []) = (seen, rs)"
    by (cases "reviewLoop (reviewEventsOf events) (length (reviewEventsOf events))
       (Map.empty(login author \<mapsto> True), [])")
  note inv = reviewLoop_start [OF run]
  from inv have seen_author: "seen (login author) = Some True" by blast
  from inv have covered:
    "\<forall>k. seen k = Some True \<longrightarrow> k = login author \<or> k \<in> set (reviewerIds rs)"
    by blast
  from inv have fresh: "login author \<notin> set (reviewerIds rs)" by blast
  have "(requestLoop seen requested rs = Inl TypeError)
       = (login author \<in> set (map reviewerId requested))"
    by (rule requestLoop_raises_iff [OF covered seen_author fresh])
  moreover have
    "(parseReviewers toLowerCase reviewerLabel requested events author = Inl TypeError)
      = (requestLoop seen requested rs = Inl TypeError)"
    by (simp add: parseReviewers_unfold [OF run] split: sum.splits)
  ultimately show ?thesis by simp
qed

text \<open>
  C4. Given the requested reviewers \<open>[A, B]\<close>, the chronological review events
  \<open>[B: APPROVED, A: CHANGES_REQUESTED, B: COMMENTED]\<close> and an author \<open>C\<close>,
  \<open>parseReviewers\<close> returns exactly two entries, \<open>A\<close> with state REQUESTED and \<open>B\<close>
  with state REQUESTED, ordered by their lowercased labels.

  The theorem holds for every \<open>toLowerCase\<close> and every \<open>reviewerLabel\<close>. The two
  requests \<open>reqA\<close> and \<open>reqB\<close> are any reviewers with the identities of \<open>A\<close> and \<open>B\<close>;
  \<open>ua\<close> is the account of the review by \<open>A\<close>, \<open>ub'\<close> that of the older and \<open>ub\<close> that
  of the newer review by \<open>B\<close>. The entries of the result are made in the newest-first
  scan of the reviews, so they carry \<open>ua\<close> and the account \<open>ub\<close> of the most recent
  review by \<open>B\<close>, not the records of the requests; the requests overwrite their states
  COMMENTED and CHANGES_REQUESTED with REQUESTED; and the sort puts first the entry
  whose lowercased label is below the other: \<open>A\<close> then \<open>B\<close> when the label of \<open>A\<close> is
  the lower one, as in the claim, and \<open>B\<close> then \<open>A\<close> when the label of \<open>B\<close> is.
\<close>

theorem parseReviewers_requested_supersedes:
  assumes "login ua \<noteq> login ub" and "login c \<noteq> login ua" and "login c \<noteq> login ub"
    and "login ub' = login ub"
    and "reviewerId reqA = login ua" and "reviewerId reqB = login ub"
  shows
    "(string_less (toLowerCase (reviewerLabel (Account ua)))
                  (toLowerCase (reviewerLabel (Account ub)))
      \<longrightarrow> parseReviewers toLowerCase reviewerLabel [reqA, reqB]
            [ReviewEv (r1\<lparr>rv_user := ub', rv_state := ''APPROVED''\<rparr>),
             ReviewEv (r2\<lparr>rv_user := ua, rv_state := ''CHANGES_REQUESTED''\<rparr>),
             ReviewEv (r3\<lparr>rv_user := ub, rv_state := ''COMMENTED''\<rparr>)] c
          = Inr [\<lparr>rs_reviewer = Account ua, rs_state = ''REQUESTED''\<rparr>,
                 \<lparr>rs_reviewer = Account ub, rs_state = ''REQUESTED''\<rparr>])
     \<and> (string_less (toLowerCase (reviewerLabel (Account ub)))
                     (toLowerCase (reviewerLabel (Account ua)))
      \<longrightarrow> parseReviewers toLowerCase reviewerLabel [reqA, reqB]
            [ReviewEv (r1\<lparr>rv_user := ub', rv_state := ''APPROVED''\<rparr>),
             ReviewEv (r2\<lparr>rv_user := ua, rv_state := ''CHANGES_REQUESTED''\<rparr>),
             ReviewEv (r3\<lparr>rv_user := ub, rv_state := ''COMMENTED''\<rparr>)] c
          = Inr [\<lparr>rs_reviewer = Account ub, rs_state = ''REQUESTED''\<rparr>,
                 \<lparr>rs_reviewer = Account ua, rs_state = ''REQUESTED''\<rparr>])"
proof -
  let ?events =
    "[ReviewEv (r1\<lparr>rv_user := ub', rv_state := ''APPROVED''\<rparr>),
      ReviewEv (r2\<lparr>rv_user := ua, rv_state := ''CHANGES_REQUESTED''\<rparr>),
      ReviewEv (r3\<lparr>rv_user := ub, rv_state := ''COMMENTED''\<rparr>)]"
  let ?A = "\<lparr>rs_reviewer = Account ua, rs_state = ''REQUESTED''\<rparr>"
  let ?B = "\<lparr>rs_reviewer = Account ub, rs_state = ''REQUESTED''\<rparr>"
  have scan:
    "reviewLoop (reviewEventsOf ?events) (length (reviewEventsOf ?events))
       (Map.empty(login c \<mapsto> True), [])
     = (Map.empty(login c \<mapsto> True, login ub \<mapsto> True, login ua \<mapsto> True),
        [\<lparr>rs_reviewer = Account ub, rs_state = ''COMMENTED''\<rparr>,
         \<lparr>rs_reviewer = Account ua, rs_state = ''CHANGES_REQUESTED''\<rparr>])"
    using assms(1-4) by (simp add: Let_def)
  have requests:
    "requestLoop (Map.empty(login c \<mapsto> True, login ub \<mapsto> True, login ua \<mapsto> True))
       [reqA, reqB]
       [\<lparr>rs_reviewer = Account ub, rs_state = ''COMMENTED''\<rparr>,
        \<lparr>rs_reviewer = Account ua, rs_state = ''CHANGES_REQUESTED''\<rparr>]
     = Inr [?B, ?A]"
    using assms(1,5,6) by simp
  have before_sort:
    "parseReviewers toLowerCase reviewerLabel [reqA, reqB] ?events c
     = Inr (sortBy (compareReviewers toLowerCase reviewerLabel) [?B, ?A])"
    by (simp only: parseReviewers_unfold [OF scan] requests sum.case)
  have a_first:
    "sortBy (compareReviewers toLowerCase reviewerLabel) [?B, ?A] = [?A, ?B]"
    if "string_less (toLowerCase (reviewerLabel (Account ua)))
                    (toLowerCase (reviewerLabel (Account ub)))"
    using that by (simp add: sortBy_def compareReviewers_def)
  have b_first:
    "sortBy (compareReviewers toLowerCase reviewerLabel) [?B, ?A] = [?B, ?A]"
    if "string_less (toLowerCase (reviewerLabel (Account ub)))
                    (toLowerCase (reviewerLabel (Account ua)))"
  proof -
    have asym: "\<not> (string_less x y \<and> string_less y x)" for x y
      by (induction x y rule: string_less.induct) auto
    from that asym have "\<not> string_less (toLowerCase (reviewerLabel (Account ua)))
                            (toLowerCase (reviewerLabel (Account ub)))"
      by blast
    then show ?thesis by (simp add: sortBy_def compareReviewers_def)
  qed
  from before_sort a_first b_first show ?thesis by simp
qed

text \<open>
  Two instances. In the first the requests are for alice and Bob: the lowercased label
  of alice is below that of Bob, though the code unit of \<^verbatim>\<open>B\<close> is below that of
  \<^verbatim>\<open>a\<close>, and alice comes first. In the second they are for Zoe and bob, and bob comes
  first. In both the requested reviewers are other records than the review authors,
  and the older review by the second reviewer has another record than the newer one.
\<close>

theorem parseReviewers_requested_supersedes_witness:
  "(login (account ''alice'') \<noteq> login (account ''Bob'')
    \<and> login (account ''carol'') \<noteq> login (account ''alice'')
    \<and> login (account ''carol'') \<noteq> login (account ''Bob'')
    \<and> login ((account ''Bob'')\<lparr>avatarUrl := Some ''old.png''\<rparr>) = login (account ''Bob'')
    \<and> reviewerId (Account ((account ''alice'')\<lparr>name := Some ''Alice A.''\<rparr>))
        = login (account ''alice'')
    \<and> reviewerId (Account ((account ''Bob'')\<lparr>name := Some ''Bob B.''\<rparr>))
        = login (account ''Bob'')
    \<and> string_less (asciiLowerCase (identityLabel (Account (account ''alice''))))
                   (asciiLowerCase (identityLabel (Account (account ''Bob''))))
    \<and> parseReviewers asciiLowerCase identityLabel
         [Account ((account ''alice'')\<lparr>name := Some ''Alice A.''\<rparr>),
          Account ((account ''Bob'')\<lparr>name := Some ''Bob B.''\<rparr>)]
         [ReviewEv ((reviewOf ''Bob'' ''APPROVED'')
                      \<lparr>rv_user := (account ''Bob'')\<lparr>avatarUrl := Some ''old.png''\<rparr>\<rparr>),
          reviewBy ''alice'' ''CHANGES_REQUESTED'',
          reviewBy ''Bob'' ''COMMENTED''] (account ''carol'')
       = Inr [\<lparr>rs_reviewer = Account (account ''alice''), rs_state = ''REQUESTED''\<rparr>,
              \<lparr>rs_reviewer = Account (account ''Bob''), rs_state = ''REQUESTED''\<rparr>])
   \<and> (login (account ''Zoe'') \<noteq> login (account ''bob'')
    \<and> login (account ''carol'') \<noteq> login (account ''Zoe'')
    \<and> login (account ''carol'') \<noteq> login (account ''bob'')
    \<and> string_less (asciiLowerCase (identityLabel (Account (account ''bob''))))
                   (asciiLowerCase (identityLabel (Account (account ''Zoe''))))
    \<and> parseReviewers asciiLowerCase identityLabel
         [Account ((account ''Zoe'')\<lparr>name := Some ''Zoe Z.''\<rparr>), Account (account ''bob'')]
         [ReviewEv ((reviewOf ''bob'' ''APPROVED'')
                      \<lparr>rv_user := (account ''bob'')\<lparr>avatarUrl := Some ''old.png''\<rparr>\<rparr>),
          reviewBy ''Zoe'' ''CHANGES_REQUESTED'',
          reviewBy ''bob'' ''COMMENTED''] (account ''carol'')
       = Inr [\<lparr>rs_reviewer = Account (account ''bob''), rs_state = ''REQUESTED''\<rparr>,
              \<lparr>rs_reviewer = Account (account ''Zoe''), rs_state = ''REQUESTED''\<rparr>])"
  using
    parseReviewers_requested_supersedes
      [where ua = "account ''alice''" and ub = "account ''Bob''" and c = "account ''carol''"
         and ub' = "(account ''Bob'')\<lparr>avatarUrl := Some ''old.png''\<rparr>"
         and reqA = "Account ((account ''alice'')\<lparr>name := Some ''Alice A.''\<rparr>)"
         and reqB = "Account ((account ''Bob'')\<lparr>name := Some ''Bob B.''\<rparr>)"
         and toLowerCase = asciiLowerCase and reviewerLabel = identityLabel
         and ?r1.0 = "reviewOf ''Bob'' ''APPROVED''"
         and ?r2.0 = "reviewOf ''alice'' ''CHANGES_REQUESTED''"
         and ?r3.0 = "reviewOf ''Bob'' ''COMMENTED''"]
    parseReviewers_requested_supersedes
      [where ua = "account ''Zoe''" and ub = "account ''bob''" and c = "account ''carol''"
         and ub' = "(account ''bob'')\<lparr>avatarUrl := Some ''old.png''\<rparr>"
         and reqA = "Account ((account ''Zoe'')\<lparr>name := Some ''Zoe Z.''\<rparr>)"
         and reqB = "Account (account ''bob'')"
         and toLowerCase = asciiLowerCase and reviewerLabel = identityLabel
         and ?r1.0 = "reviewOf ''bob'' ''APPROVED''"
         and ?r2.0 = "reviewOf ''Zoe'' ''CHANGES_REQUESTED''"
         and ?r3.0 = "reviewOf ''bob'' ''COMMENTED''"]
  by (simp add: account_def team_def reviewBy_def reviewOf_def identityLabel_def
      codeUnits_def asciiLowerCase_def)

text \<open>
  C5. The claim is that \<open>parseReviewers\<close> returns a list for every input, also when a
  requested reviewer's identity equals the author's login. On that input the code
  raises: the author's login is in \<open>seen\<close> without an entry in \<open>reviewers\<close>, so
  \<^verbatim>\<open>find\<close> returns \<^verbatim>\<open>undefined\<close> and the assignment to \<^verbatim>\<open>reviewer!.state\<close> is a
  TypeError. Here the author carol is the one requested reviewer.
\<close>

theorem parseReviewers_author_requested_raises:
  "parseReviewers toLowerCase reviewerLabel [Account (account ''carol'')] []
     (account ''carol'')
   = Inl TypeError"
  by (simp add: parseReviewers_def)

text \<open>
  C6, as stated: for every input the returned list has at most one entry per reviewer
  identity. It fails when two requested reviewers have the same identity: an entry
  pushed for a requested reviewer is not recorded in \<open>seen\<close>, so the same account
  requested twice, or an account and a team of the same identity, give two entries.
\<close>

theorem parseReviewers_duplicate_request:
  "map_sum id reviewerIds
     (parseReviewers asciiLowerCase identityLabel
        [Account (account ''alice''), Account (account ''alice'')] [] (account ''carol''))
     = Inr [''alice'', ''alice'']
   \<and> map_sum id reviewerIds
       (parseReviewers asciiLowerCase identityLabel
          [Account (account ''docs''), Team (team ''docs'')] [] (account ''carol''))
     = Inr [''docs'', ''docs'']"
  by (simp add: parseReviewers_def sortBy_def compareReviewers_def account_def team_def)

text \<open>
  C6, amended: whenever \<open>parseReviewers\<close> returns a list, no entry of the list has the
  author's login as its identity, also when the timeline has a review by the author;
  and when the requested reviewers have pairwise different identities, the list has at
  most one entry per reviewer identity.
\<close>

theorem parseReviewers_entries:
  assumes "parseReviewers toLowerCase reviewerLabel requested events author = Inr result"
  shows "login author \<notin> set (reviewerIds result)
         \<and> (distinct (map reviewerId requested) \<longrightarrow> distinct (reviewerIds result))"
proof -
  obtain seen rs where run:
    "reviewLoop (reviewEventsOf events) (length (reviewEventsOf events))
       (Map.empty(login author \<mapsto> True), []) = (seen, rs)"
    by (cases "reviewLoop (reviewEventsOf events) (length (reviewEventsOf events))
       (Map.empty(login author \<mapsto> True), [])")
  note inv = reviewLoop_start [OF run]
  from assms obtain out where out: "requestLoop seen requested rs = Inr out"
    and result: "result = sortBy (compareReviewers toLowerCase reviewerLabel) out"
    by (auto simp: parseReviewers_unfold [OF run] split: sum.splits)
  from inv have seen_author: "seen (login author) = Some True" by blast
  from inv have fresh: "login author \<notin> set (reviewerIds rs)" by blast
  from inv have unique: "distinct (reviewerIds rs)" by blast
  have "login author \<notin> set (reviewerIds out)"
    by (rule requestLoop_author [OF out seen_author fresh])
  then have 1: "login author \<notin> set (reviewerIds result)"
    unfolding result by (simp add: reviewerIds_sortBy)
  have 2: "distinct (reviewerIds result)" if "distinct (map reviewerId requested)"
  proof -
    from inv have known: "\<forall>k \<in> set (reviewerIds rs).
        seen k = Some True \<or> k \<notin> set (map reviewerId requested)"
      by blast
    have "distinct (reviewerIds out)"
      by (rule requestLoop_distinct [OF out unique that known])
    then show ?thesis unfolding result by (simp add: reviewerIds_sortBy)
  qed
  from 1 2 show ?thesis by blast
qed

theorem parseReviewers_entries_witness:
  "parseReviewers asciiLowerCase identityLabel
       [Account (account ''alice''), Team (team ''docs'')]
       [reviewBy ''carol'' ''APPROVED'', reviewBy ''alice'' ''COMMENTED'',
        reviewBy ''bob'' ''APPROVED''] (account ''carol'')
     = Inr [\<lparr>rs_reviewer = Account (account ''bob''), rs_state = ''APPROVED''\<rparr>,
            \<lparr>rs_reviewer = Account (account ''alice''), rs_state = ''REQUESTED''\<rparr>,
            \<lparr>rs_reviewer = Team (team ''docs''), rs_state = ''REQUESTED''\<rparr>]
   \<and> login (account ''carol'') \<notin> set [''bob'', ''alice'', ''docs'']
   \<and> distinct (map reviewerId [Account (account ''alice''), Team (team ''docs'')])
   \<and> distinct [''bob'', ''alice'', ''docs'']"
proof -
  have run:
    "parseReviewers asciiLowerCase identityLabel
       [Account (account ''alice''), Team (team ''docs'')]
       [reviewBy ''carol'' ''APPROVED'', reviewBy ''alice'' ''COMMENTED'',
        reviewBy ''bob'' ''APPROVED''] (account ''carol'')
     = Inr [\<lparr>rs_reviewer = Account (account ''bob''), rs_state = ''APPROVED''\<rparr>,
            \<lparr>rs_reviewer = Account (account ''alice''), rs_state = ''REQUESTED''\<rparr>,
            \<lparr>rs_reviewer = Team (team ''docs''), rs_state = ''REQUESTED''\<rparr>]"
    by (simp add: parseReviewers_def sortBy_def compareReviewers_def account_def team_def
        reviewBy_def reviewOf_def identityLabel_def codeUnits_def asciiLowerCase_def)
  from parseReviewers_entries [OF run] run show ?thesis
    by (simp add: account_def team_def)
qed

end
